theory Spec2Isabelle
  imports Complex_Main
begin

section \<open>Python values, errors and the math builtins\<close>

text \<open>
  The service passes loosely typed dictionaries between its stages. A feature value is a
  number or \<open>None\<close> (the two cases \<open>_prepare_features\<close> itself tells apart);
  floats are modelled as reals. A raised exception is the \<open>Inl\<close> of a sum.
\<close>

datatype error =
    TypeError
  | ValueError
  | AttributeError
  | IndexError
  | KeyError
  | ZeroDivisionError
  | ModelError
  | TimeoutError
  | ConnectionError
  | HTTPException nat string

datatype pyval = PNone | PNum real

type_synonym pydict = "(string \<times> pyval) list"

text \<open>\<open>d.get(k, default)\<close> and \<open>d.get(k)\<close>.\<close>

definition dict_get :: "pydict \<Rightarrow> string \<Rightarrow> pyval \<Rightarrow> pyval" where
  "dict_get d k dflt = (case map_of d k of None \<Rightarrow> dflt | Some v \<Rightarrow> v)"

definition dict_get_none :: "pydict \<Rightarrow> string \<Rightarrow> pyval" where
  "dict_get_none d k = dict_get d k PNone"

text \<open>Truth value of a feature in an \<open>if\<close>.\<close>

fun truthy :: "pyval \<Rightarrow> bool" where
  "truthy PNone = False"
| "truthy (PNum x) = (x \<noteq> 0)"

text \<open>Arithmetic and ordering on a dynamic value: \<open>None\<close> raises \<open>TypeError\<close>.\<close>

fun num_of :: "pyval \<Rightarrow> error + real" where
  "num_of PNone = Inl TypeError"
| "num_of (PNum x) = Inr x"

text \<open>\<open>math.radians\<close>, \<open>math.sqrt\<close> (a negative argument is a domain error) and
  \<open>math.atan2\<close> with the quadrant rules of the C library.\<close>

definition radians :: "real \<Rightarrow> real" where
  "radians x = x * pi / 180"

definition py_sqrt :: "real \<Rightarrow> error + real" where
  "py_sqrt x = (if x < 0 then Inl ValueError else Inr (sqrt x))"

definition atan2 :: "real \<Rightarrow> real \<Rightarrow> real" where
  "atan2 y x =
     (if 0 < x then arctan (y / x)
      else if x < 0 then (if 0 \<le> y then arctan (y / x) + pi else arctan (y / x) - pi)
      else if 0 < y then pi / 2
      else if y < 0 then - (pi / 2)
      else 0)"

section \<open>Prediction engine (app/services/model\_service.py)\<close>

text \<open>
  The loaded regressor is whatever \<open>joblib.load\<close> returned: a function from the
  prepared vector to a prediction, which may raise. \<open>model = None\<close> is the state with
  no model loaded.
\<close>

record ModelService =
  model :: "(real list \<Rightarrow> error + real) option"
  model_version :: string

definition FEATURE_NAMES :: "string list" where
  "FEATURE_NAMES =
     [''straight_distance_km'', ''estimated_road_distance_km'', ''bearing_sin'',
      ''bearing_cos'', ''hour'', ''hour_sin'', ''hour_cos'', ''day_of_week'', ''day_sin'',
      ''day_cos'', ''is_weekend'', ''is_rush_hour_morning'', ''is_rush_hour_evening'',
      ''is_night'', ''is_holiday'', ''traffic_speed_ratio'', ''traffic_delay_minutes'',
      ''traffic_level_encoded'', ''traffic_incidents_count'', ''traffic_congestion_percent'',
      ''weather_condition_encoded'', ''is_raining'', ''precipitation_mm'', ''visibility_km'',
      ''is_cbd_origin'', ''is_cbd_dest'', ''crosses_cbd'', ''h3_distance'',
      ''vehicle_type_encoded'', ''is_bike'', ''driver_rating'']"

text \<open>\<open>_prepare_features\<close>: every declared name in order, a missing key or \<open>None\<close>
  as 0.\<close>

definition prepare_features :: "pydict \<Rightarrow> real list" where
  "prepare_features features =
     map (\<lambda>name. case dict_get features name (PNum 0) of PNone \<Rightarrow> 0 | PNum x \<Rightarrow> x)
       FEATURE_NAMES"

text \<open>\<open>_calculate_uncertainty\<close>: 10% base, raised for rain, heavy traffic, rush hour
  and long trips, capped at 30%. The two comparisons raise on \<open>None\<close>.\<close>

definition calculate_uncertainty :: "pydict \<Rightarrow> error + real" where
  "calculate_uncertainty features =
     (let u0 = (10 / 100 :: real);
          u1 = (if truthy (dict_get features ''is_raining'' (PNum 0)) then u0 + 5 / 100 else u0)
      in case num_of (dict_get features ''traffic_level_encoded'' (PNum 0)) of
           Inl e \<Rightarrow> Inl e
         | Inr level \<Rightarrow>
             (let u2 = (if 2 \<le> level then u1 + 8 / 100 else u1);
                  u3 = (if truthy (dict_get features ''is_rush_hour_morning'' (PNum 0))
                           \<or> truthy (dict_get features ''is_rush_hour_evening'' (PNum 0))
                        then u2 + 5 / 100 else u2)
              in case num_of (dict_get features ''estimated_road_distance_km'' (PNum 0)) of
                   Inl e \<Rightarrow> Inl e
                 | Inr distance \<Rightarrow>
                     (let u4 = (if 10 < distance then u3 + 5 / 100 else u3)
                      in Inr (min (30 / 100) u4))))"

text \<open>The lookup \<open>traffic_multipliers.get(traffic_level, 1.3)\<close> in the table
  \<open>{0: 1.0, 1: 1.3, 2: 1.8, 3: 2.5}\<close>.\<close>

fun traffic_multiplier :: "pyval \<Rightarrow> real" where
  "traffic_multiplier PNone = 13 / 10"
| "traffic_multiplier (PNum x) =
     (if x = 0 then 1 else if x = 1 then 13 / 10 else if x = 2 then 18 / 10
      else if x = 3 then 25 / 10 else 13 / 10)"

definition time_multiplier :: "pydict \<Rightarrow> real" where
  "time_multiplier features =
     (if truthy (dict_get_none features ''is_rush_hour_morning'')
         \<or> truthy (dict_get_none features ''is_rush_hour_evening'') then 14 / 10
      else if truthy (dict_get_none features ''is_night'') then 8 / 10
      else 1)"

text \<open>\<open>_fallback_prediction\<close>: base speed 25 km/h divided by the two multipliers, a
  25% band, and the floors of the return statement
  \<open>max(60, eta_seconds), max(60, min_eta), max_eta\<close>.\<close>

definition fallback_prediction :: "pydict \<Rightarrow> error + (real \<times> real \<times> real)" where
  "fallback_prediction features =
     (let BASE_SPEED = (25 :: real);
          distance_km = dict_get features ''estimated_road_distance_km'' (PNum 5);
          traffic_level = dict_get features ''traffic_level_encoded'' (PNum 1);
          traffic_mult = traffic_multiplier traffic_level;
          time_mult = time_multiplier features;
          effective_speed = BASE_SPEED / (traffic_mult * time_mult)
      in case num_of distance_km of
           Inl e \<Rightarrow> Inl e
         | Inr d \<Rightarrow>
             (let eta_hours = d / effective_speed;
                  eta_seconds = eta_hours * 3600;
                  uncertainty = (25 / 100 :: real);
                  min_eta = eta_seconds * (1 - uncertainty);
                  max_eta = eta_seconds * (1 + uncertainty)
              in Inr (max 60 eta_seconds, max 60 min_eta, max_eta)))"

text \<open>The \<open>try\<close> block of \<open>predict\<close>: prepare the vector, call the model, floor the
  prediction at 60 seconds, and put the uncertainty band around it.\<close>

definition ready_path ::
  "(real list \<Rightarrow> error + real) \<Rightarrow> pydict \<Rightarrow> error + (real \<times> real \<times> real)" where
  "ready_path m features =
     (let feature_vector = prepare_features features
      in case m feature_vector of
           Inl e \<Rightarrow> Inl e
         | Inr prediction \<Rightarrow>
             (let eta_seconds = max 60 prediction
              in case calculate_uncertainty features of
                   Inl e \<Rightarrow> Inl e
                 | Inr uncertainty \<Rightarrow>
                     Inr (eta_seconds, eta_seconds * (1 - uncertainty),
                          eta_seconds * (1 + uncertainty))))"

text \<open>\<open>predict\<close>: the fallback when no model is loaded, otherwise the ready path with
  \<open>except Exception\<close> routing every failure to the fallback. The result is the bare
  triple \<open>(eta_seconds, min_eta_seconds, max_eta_seconds)\<close>.\<close>

definition predict :: "ModelService \<Rightarrow> pydict \<Rightarrow> error + (real \<times> real \<times> real)" where
  "predict svc features =
     (case model svc of
        None \<Rightarrow> fallback_prediction features
      | Some m \<Rightarrow>
          (case ready_path m features of
             Inl e \<Rightarrow> fallback_prediction features
           | Inr r \<Rightarrow> Inr r))"

section \<open>Coordinates and the haversine distance\<close>

text \<open>\<open>Location\<close> of app/models/schemas.py; pydantic rejects a latitude outside
  \<open>[-90, 90]\<close> and a longitude outside \<open>[-180, 180]\<close> when the request is parsed.\<close>

record Location =
  latitude :: real
  longitude :: real


text \<open>\<open>FeatureService._haversine_distance\<close> (metres): the haversine term \<open>a\<close>, then
  \<open>c = 2 * atan2(sqrt(a), sqrt(1 - a))\<close> with both square roots able to raise.\<close>

definition haversine_a :: "real \<Rightarrow> real \<Rightarrow> real \<Rightarrow> real \<Rightarrow> real" where
  "haversine_a phi1 phi2 delta_phi delta_lambda =
     (sin (delta_phi / 2))\<^sup>2 + cos phi1 * cos phi2 * (sin (delta_lambda / 2))\<^sup>2"

definition central_angle :: "real \<Rightarrow> error + real" where
  "central_angle a =
     (case py_sqrt a of
        Inl e \<Rightarrow> Inl e
      | Inr s \<Rightarrow>
          (case py_sqrt (1 - a) of
             Inl e \<Rightarrow> Inl e
           | Inr t \<Rightarrow> Inr (2 * atan2 s t)))"

definition haversine_distance :: "real \<Rightarrow> real \<Rightarrow> real \<Rightarrow> real \<Rightarrow> error + real" where
  "haversine_distance lat1 lng1 lat2 lng2 =
     (let R = (6371000 :: real);
          phi1 = radians lat1;
          phi2 = radians lat2;
          delta_phi = radians (lat2 - lat1);
          delta_lambda = radians (lng2 - lng1);
          a = haversine_a phi1 phi2 delta_phi delta_lambda
      in case central_angle a of Inl e \<Rightarrow> Inl e | Inr c \<Rightarrow> Inr (R * c))"

section \<open>Prediction route (app/routes/predictions.py)\<close>

text \<open>\<open>_simple_eta_calculation\<close>, first the haversine term \<open>a\<close> of the two
  points.\<close>

definition simple_haversine_term :: "Location \<Rightarrow> Location \<Rightarrow> real" where
  "simple_haversine_term pickup dropoff =
     (let lat1 = radians (latitude pickup); lng1 = radians (longitude pickup);
          lat2 = radians (latitude dropoff); lng2 = radians (longitude dropoff);
          dlat = lat2 - lat1;
          dlng = lng2 - lng1
      in haversine_a lat1 lat2 dlat dlng)"

text \<open>Then \<open>c = 2 * atan2(sqrt(a), sqrt(1 - a))\<close> and \<open>distance_km = R * c\<close> with
  radius 6371; a term outside \<open>[0, 1]\<close> is a domain error of \<open>math.sqrt\<close>.\<close>

definition simple_distance_from_term :: "real \<Rightarrow> error + real" where
  "simple_distance_from_term a =
     (let R = (6371 :: real)
      in case central_angle a of Inl e \<Rightarrow> Inl e | Inr c \<Rightarrow> Inr (R * c))"

text \<open>The speed part: 25 km/h, multiplied by \<open>speed_ratio\<close> when a non-empty traffic
  dictionary is given, and \<open>max(avg_speed_kmh, 5)\<close> as the divisor.\<close>

definition simple_speed_divisor :: "pydict option \<Rightarrow> error + real" where
  "simple_speed_divisor traffic_data =
     (let avg_speed_kmh = (25 :: real)
      in case traffic_data of
           None \<Rightarrow> Inr (max avg_speed_kmh 5)
         | Some t \<Rightarrow>
             (if t = [] then Inr (max avg_speed_kmh 5)
              else case num_of (dict_get t ''speed_ratio'' (PNum 1)) of
                     Inl e \<Rightarrow> Inl e
                   | Inr speed_ratio \<Rightarrow> Inr (max (avg_speed_kmh * speed_ratio) 5)))"

text \<open>The rest of the function from the term on: distance over the clamped speed, with
  a 20% margin on both sides; the three values are returned as computed.\<close>

definition simple_eta_from_term :: "real \<Rightarrow> pydict option \<Rightarrow> error + (real \<times> real \<times> real)" where
  "simple_eta_from_term a traffic_data =
     (case simple_distance_from_term a of
        Inl e \<Rightarrow> Inl e
      | Inr distance_km \<Rightarrow>
          (case simple_speed_divisor traffic_data of
             Inl e \<Rightarrow> Inl e
           | Inr divisor \<Rightarrow>
               (let eta_hours = distance_km / divisor;
                    eta_seconds = eta_hours * 3600;
                    margin = eta_seconds * (2 / 10)
                in Inr (eta_seconds, eta_seconds - margin, eta_seconds + margin))))"

definition simple_eta_calculation ::
  "Location \<Rightarrow> Location \<Rightarrow> pydict option \<Rightarrow> error + (real \<times> real \<times> real)" where
  "simple_eta_calculation pickup dropoff traffic_data =
     simple_eta_from_term (simple_haversine_term pickup dropoff) traffic_data"

datatype PredictionMethod = ML_MODEL | SIMPLE_CALCULATION

text \<open>The prediction step of \<open>predict_eta\<close> (the \<open>if\<close>/\<open>else\<close> after feature
  generation). Its condition is
  \<open>dependencies.model_service and dependencies.model_service.is_ready()\<close>. The class
  \<open>ModelService\<close> defines \<open>load_model\<close>, \<open>predict\<close>, \<open>_prepare_features\<close>,
  \<open>_calculate_uncertainty\<close>, \<open>_fallback_prediction\<close>, \<open>_update_prediction_metrics\<close>,
  \<open>get_model_info\<close> and \<open>reload_model\<close>, and no \<open>is_ready\<close>: with a model service
  configured the attribute lookup raises \<open>AttributeError\<close> before the engine is called
  (the handler around the route body answers it with HTTP 500). With none configured
  the route's own calculation is used and labelled \<open>SIMPLE_CALCULATION\<close>.\<close>

definition predict_eta_step ::
  "ModelService option \<Rightarrow> pydict \<Rightarrow> Location \<Rightarrow> Location \<Rightarrow> pydict option \<Rightarrow>
   error + ((real \<times> real \<times> real) \<times> PredictionMethod \<times> string option)" where
  "predict_eta_step model_service features pickup dropoff traffic_data =
     (case model_service of
        Some svc \<Rightarrow> Inl AttributeError
      | None \<Rightarrow>
          (case simple_eta_calculation pickup dropoff traffic_data of
             Inl e \<Rightarrow> Inl e
           | Inr r \<Rightarrow> Inr (r, SIMPLE_CALCULATION, None)))"

section \<open>Cache service (app/services/cache\_service.py)\<close>

text \<open>
  A value that crosses the JSON boundary (a cached entry, a provider's payload).
\<close>

datatype json =
    JNull
  | JBool bool
  | JNum real
  | JStr string
  | JArr "json list"
  | JObj "(string \<times> json) list"

text \<open>Truth value of such a value in an \<open>if\<close> or an \<open>or\<close>.\<close>

fun json_truthy :: "json \<Rightarrow> bool" where
  "json_truthy JNull = False"
| "json_truthy (JBool b) = b"
| "json_truthy (JNum x) = (x \<noteq> 0)"
| "json_truthy (JStr s) = (s \<noteq> [])"
| "json_truthy (JArr xs) = (xs \<noteq> [])"
| "json_truthy (JObj kvs) = (kvs \<noteq> [])"

text \<open>A number in arithmetic or an ordering test; \<open>bool\<close> is a subclass of \<open>int\<close>,
  anything else raises \<open>TypeError\<close>.\<close>

fun json_num :: "json \<Rightarrow> error + real" where
  "json_num (JNum x) = Inr x"
| "json_num (JBool b) = Inr (if b then 1 else 0)"
| "json_num v = Inl TypeError"

text \<open>
  The Redis client behind the service: the server is reachable or every call raises, and
  the keys hold the values written (an expired key is an absent one). Each method of
  \<open>CacheService\<close> wraps its client call in \<open>try\<close>/\<open>except Exception\<close>.
\<close>

record redis =
  reachable :: bool
  kv :: "string \<rightharpoonup> json"

definition cache_get :: "redis \<Rightarrow> string \<Rightarrow> json option" where
  "cache_get r key = (if reachable r then kv r key else None)"

definition cache_set :: "redis \<Rightarrow> string \<Rightarrow> json \<Rightarrow> nat \<Rightarrow> bool \<times> redis" where
  "cache_set r key v ttl =
     (if reachable r then (True, r\<lparr>kv := (kv r)(key \<mapsto> v)\<rparr>) else (False, r))"






section \<open>Experiments (app/routes/experiments.py)\<close>

record ExperimentConfig =
  experiment_id :: "string option"
  name :: string
  description :: "string option"
  traffic_percentage :: int
  start_time :: real
  end_time :: "real option"
  status :: string

type_synonym registry = "string \<rightharpoonup> ExperimentConfig"

text \<open>\<open>get_experiment_assignment\<close>. The builtin \<open>hash\<close> of a string is a parameter:
  Python fixes it for the life of a process. \<open>%\<close> with a positive modulus is \<open>mod\<close>.\<close>

definition get_experiment_assignment ::
  "(string \<Rightarrow> int) \<Rightarrow> registry \<Rightarrow> string \<Rightarrow> string \<Rightarrow> string option" where
  "get_experiment_assignment hash active_experiments user_id exp_id =
     (case active_experiments exp_id of
        None \<Rightarrow> None
      | Some experiment \<Rightarrow>
          (if status experiment \<noteq> ''active'' then None
           else (let hash_value = hash (user_id @ '':'' @ exp_id) mod 100
                 in if hash_value < traffic_percentage experiment
                    then Some ''treatment'' else Some ''control'')))"

text \<open>The builtin \<open>round(x, ndigits)\<close> works on the binary float; it is the parameter
  \<open>rnd\<close> of the two operations that report rounded figures.\<close>












section \<open>Training trigger (app/routes/training.py)\<close>

datatype training_result = TrainingSuccess nat | TrainingFailed string

record training_state =
  is_training :: bool
  last_trained :: "real option"
  last_result :: "training_result option"

datatype background_task = RunTraining

datatype trigger_response =
    Skipped real real
  | Started real

text \<open>\<open>trigger_training\<close>. Times are seconds on the UTC clock, \<open>now\<close> is
  \<open>datetime.utcnow()\<close>; \<open>retrain_interval\<close> is \<open>settings.retrain_interval_hours\<close> when
  settings are injected. The state and the queue of background tasks are returned as the
  call leaves them.\<close>

definition trigger_training ::
  "training_state \<Rightarrow> background_task list \<Rightarrow> real \<Rightarrow> bool \<Rightarrow> int option \<Rightarrow>
   (error + trigger_response) \<times> training_state \<times> background_task list" where
  "trigger_training st background_tasks now force retrain_interval =
     (if is_training st
      then (Inl (HTTPException 409 ''Training already in progress''), st, background_tasks)
      else
        (let start = (Inr (Started now), st\<lparr>is_training := True\<rparr>, background_tasks @ [RunTraining])
         in if force then start
            else case last_trained st of
                   None \<Rightarrow> start
                 | Some trained_at \<Rightarrow>
                     (let hours_since_training = (now - trained_at) / 3600;
                          limit = (case retrain_interval of None \<Rightarrow> 24 | Some h \<Rightarrow> of_int h)
                      in if hours_since_training < limit
                         then (Inr (Skipped hours_since_training (trained_at + 24 * 3600)), st,
                               background_tasks)
                         else start)))"

section \<open>Condition adapters (app/services/traffic\_service.py, weather\_service.py)\<close>

text \<open>Sequencing of steps that may raise: the first exception ends the block.\<close>

definition and_then :: "error + 'a \<Rightarrow> ('a \<Rightarrow> error + 'b) \<Rightarrow> error + 'b" where
  "and_then r f = (case r of Inl e \<Rightarrow> Inl e | Inr v \<Rightarrow> f v)"

text \<open>An argument object is the list of its attributes; reading an attribute it does not
  have raises \<open>AttributeError\<close>.\<close>

type_synonym pyobject = "(string \<times> json) list"

definition getattr :: "pyobject \<Rightarrow> string \<Rightarrow> error + json" where
  "getattr obj a = (case map_of obj a of None \<Rightarrow> Inl AttributeError | Some v \<Rightarrow> Inr v)"

text \<open>The format specification \<open>:.Nf\<close> inside an f-string. The rendering of a float with
  \<open>N\<close> decimals is the parameter \<open>fmt\<close>.\<close>

fun format_f :: "(nat \<Rightarrow> real \<Rightarrow> string) \<Rightarrow> nat \<Rightarrow> json \<Rightarrow> error + string" where
  "format_f fmt n (JNum x) = Inr (fmt n x)"
| "format_f fmt n (JBool b) = Inr (fmt n (if b then 1 else 0))"
| "format_f fmt n (JStr s) = Inl ValueError"
| "format_f fmt n v = Inl TypeError"

definition attr_fixed ::
  "(nat \<Rightarrow> real \<Rightarrow> string) \<Rightarrow> nat \<Rightarrow> pyobject \<Rightarrow> string \<Rightarrow> error + string" where
  "attr_fixed fmt n obj a = and_then (getattr obj a) (format_f fmt n)"

text \<open>\<open>v.get(k, default)\<close>, \<open>v[0]\<close> and \<open>len(v)\<close> on a parsed payload.\<close>

fun json_get :: "json \<Rightarrow> string \<Rightarrow> json \<Rightarrow> error + json" where
  "json_get (JObj kvs) k dflt = Inr (case map_of kvs k of None \<Rightarrow> dflt | Some v \<Rightarrow> v)"
| "json_get v k dflt = Inl AttributeError"

fun json_first :: "json \<Rightarrow> error + json" where
  "json_first (JArr []) = Inl IndexError"
| "json_first (JArr (x # xs)) = Inr x"
| "json_first (JStr []) = Inl IndexError"
| "json_first (JStr (c # cs)) = Inr (JStr [c])"
| "json_first (JObj kvs) = Inl KeyError"
| "json_first v = Inl TypeError"

fun json_len :: "json \<Rightarrow> error + nat" where
  "json_len (JArr xs) = Inr (length xs)"
| "json_len (JStr s) = Inr (length s)"
| "json_len (JObj kvs) = Inr (length kvs)"
| "json_len v = Inl TypeError"

text \<open>\<open>int(x)\<close> of a float: truncation towards zero.\<close>

definition py_int :: "real \<Rightarrow> int" where
  "py_int x = (if 0 \<le> x then \<lfloor>x\<rfloor> else \<lceil>x\<rceil>)"

text \<open>\<open>if self.api_key\<close>: a key that is neither \<open>None\<close> nor empty.\<close>

definition key_truthy :: "string option \<Rightarrow> bool" where
  "key_truthy k = (case k of None \<Rightarrow> False | Some s \<Rightarrow> s \<noteq> [])"

text \<open>What the provider does with the one GET of a request: the call raises (timeout,
  connection failure), or answers with a status code and a body whose parsing by
  \<open>response.json()\<close> gives a value or raises.\<close>

record http_response =
  status_code :: int
  json_body :: "error + json"

definition speed_ratio_to_level :: "real \<Rightarrow> string" where
  "speed_ratio_to_level ratio =
     (if 9 / 10 < ratio then ''low''
      else if 7 / 10 < ratio then ''moderate''
      else if 5 / 10 < ratio then ''heavy''
      else ''severe'')"

definition default_traffic :: json where
  "default_traffic =
     JObj [(''speed_ratio'', JNum (75 / 100)), (''delay_minutes'', JNum 5),
           (''level'', JStr ''moderate''), (''incidents'', JNum 0),
           (''congestion'', JNum 25)]"

definition traffic_summary :: "real \<Rightarrow> real \<Rightarrow> nat \<Rightarrow> json" where
  "traffic_summary speed_ratio delay_minutes incidents =
     JObj [(''speed_ratio'', JNum speed_ratio), (''delay_minutes'', JNum delay_minutes),
           (''level'', JStr (speed_ratio_to_level speed_ratio)),
           (''incidents'', JNum (of_nat incidents)),
           (''congestion'', JNum (of_int (py_int ((1 - speed_ratio) * 100))))]"

text \<open>\<open>TrafficService._fetch_from_api\<close>: the URL reads the four coordinates, a status
  other than 200 gives the default summary, and the payload is read field by field.\<close>

definition traffic_ratio_and_delay :: "json \<Rightarrow> json \<Rightarrow> error + (real \<times> real)" where
  "traffic_ratio_and_delay freeflow_time traffic_time =
     and_then (json_num freeflow_time) (\<lambda>ff.
       if 0 < ff then
         and_then (json_num traffic_time) (\<lambda>tt.
           if tt = 0 then Inl ZeroDivisionError else Inr (ff / tt, (tt - ff) / 60))
       else Inr (1, 0))"

definition traffic_parse :: "json \<Rightarrow> error + json" where
  "traffic_parse data =
     and_then (json_get data ''routes'' (JArr [JObj []])) (\<lambda>routes.
     and_then (json_first routes) (\<lambda>route.
     and_then (json_get route ''summary'' (JObj [])) (\<lambda>summary.
     and_then (json_get summary ''noTrafficTravelTimeInSeconds'' (JNum 0)) (\<lambda>freeflow_time.
     and_then (json_get summary ''travelTimeInSeconds'' (JNum 0)) (\<lambda>traffic_time.
     and_then (traffic_ratio_and_delay freeflow_time traffic_time) (\<lambda>(speed_ratio, delay_minutes).
     and_then (json_get route ''incidents'' (JArr [])) (\<lambda>incidents.
     and_then (json_len incidents) (\<lambda>n.
       Inr (traffic_summary speed_ratio delay_minutes n)))))))))"

definition traffic_fetch_from_api ::
  "(error + http_response) \<Rightarrow> pyobject \<Rightarrow> pyobject \<Rightarrow> error + json" where
  "traffic_fetch_from_api provider origin destination =
     and_then (getattr origin ''lat'') (\<lambda>olat.
     and_then (getattr origin ''lng'') (\<lambda>olng.
     and_then (getattr destination ''lat'') (\<lambda>dlat.
     and_then (getattr destination ''lng'') (\<lambda>dlng.
     and_then provider (\<lambda>response.
       if status_code response \<noteq> 200 then Inr default_traffic
       else and_then (json_body response) traffic_parse)))))"

text \<open>\<open>_crosses_cbd\<close> and \<open>_estimate_from_patterns\<close>; \<open>hour\<close> and \<open>day\<close> are
  \<open>datetime.now()\<close>'s hour and weekday.\<close>

definition in_cbd :: "json \<Rightarrow> json \<Rightarrow> error + bool" where
  "in_cbd lat lng =
     and_then (json_num lat) (\<lambda>a.
       if \<bar>a - (- 1285 / 1000)\<bar> < 2 / 100
       then and_then (json_num lng) (\<lambda>b. Inr (\<bar>b - 3682 / 100\<bar> < 2 / 100))
       else Inr False)"

definition crosses_cbd :: "pyobject \<Rightarrow> pyobject \<Rightarrow> error + bool" where
  "crosses_cbd origin destination =
     and_then (getattr origin ''lat'') (\<lambda>olat.
     and_then (getattr origin ''lng'') (\<lambda>olng.
     and_then (in_cbd olat olng) (\<lambda>origin_in.
     and_then (getattr destination ''lat'') (\<lambda>dlat.
     and_then (getattr destination ''lng'') (\<lambda>dlng.
     and_then (in_cbd dlat dlng) (\<lambda>dest_in.
       Inr (origin_in \<or> dest_in)))))))"

definition pattern_ratio :: "int \<Rightarrow> int \<Rightarrow> bool \<Rightarrow> real" where
  "pattern_ratio hour day is_cbd =
     (if day < 5 then
        (if 7 \<le> hour \<and> hour \<le> 9 then (if is_cbd then 5 / 10 else 7 / 10)
         else if 17 \<le> hour \<and> hour \<le> 19 then (if is_cbd then 45 / 100 else 65 / 100)
         else if 12 \<le> hour \<and> hour \<le> 14 then 75 / 100
         else if 22 \<le> hour \<or> hour \<le> 5 then 95 / 100
         else 8 / 10)
      else
        (if 11 \<le> hour \<and> hour \<le> 15 then 7 / 10 else 85 / 100))"

definition estimate_from_patterns ::
  "int \<Rightarrow> int \<Rightarrow> pyobject \<Rightarrow> pyobject \<Rightarrow> error + json" where
  "estimate_from_patterns hour day origin destination =
     and_then (crosses_cbd origin destination) (\<lambda>is_cbd.
       (let base_ratio = pattern_ratio hour day is_cbd
        in Inr (JObj [(''speed_ratio'', JNum base_ratio),
                      (''delay_minutes'', JNum ((1 / base_ratio - 1) * 10)),
                      (''level'', JStr (speed_ratio_to_level base_ratio)),
                      (''incidents'', JNum 0),
                      (''congestion'', JNum (of_int (py_int ((1 - base_ratio) * 100))))])))"

definition traffic_cache_key ::
  "(nat \<Rightarrow> real \<Rightarrow> string) \<Rightarrow> pyobject \<Rightarrow> pyobject \<Rightarrow> error + string" where
  "traffic_cache_key fmt origin destination =
     and_then (attr_fixed fmt 4 origin ''lat'') (\<lambda>a.
     and_then (attr_fixed fmt 4 origin ''lng'') (\<lambda>b.
     and_then (attr_fixed fmt 4 destination ''lat'') (\<lambda>c.
     and_then (attr_fixed fmt 4 destination ''lng'') (\<lambda>d.
       Inr (''traffic:'' @ a @ '','' @ b @ '':'' @ c @ '','' @ d)))))"

text \<open>\<open>get_traffic_conditions\<close>: the cache key is built and the cache is read before
  the \<open>try\<close>; a truthy cached value is returned as it is; otherwise the \<open>try\<close> block
  fetches or estimates, writes the result through and returns it, and
  \<open>except Exception\<close> returns the default summary.\<close>

definition get_traffic_conditions ::
  "(nat \<Rightarrow> real \<Rightarrow> string) \<Rightarrow> string option \<Rightarrow> redis \<Rightarrow> (error + http_response) \<Rightarrow>
   int \<Rightarrow> int \<Rightarrow> pyobject \<Rightarrow> pyobject \<Rightarrow> (error + json) \<times> redis" where
  "get_traffic_conditions fmt api_key r provider hour day origin destination =
     (case traffic_cache_key fmt origin destination of
        Inl e \<Rightarrow> (Inl e, r)
      | Inr cache_key \<Rightarrow>
          (let miss =
                 (case (if key_truthy api_key
                        then traffic_fetch_from_api provider origin destination
                        else estimate_from_patterns hour day origin destination) of
                    Inl e \<Rightarrow> (Inr default_traffic, r)
                  | Inr result \<Rightarrow> (Inr result, snd (cache_set r cache_key result 30)))
           in case cache_get r cache_key of
                None \<Rightarrow> miss
              | Some cached \<Rightarrow> if json_truthy cached then (Inr cached, r) else miss))"

text \<open>\<open>str.lower\<close> on ASCII letters.\<close>

definition lower_char :: "char \<Rightarrow> char" where
  "lower_char c =
     (let n = (of_char c :: nat) in if 65 \<le> n \<and> n \<le> 90 then char_of (n + 32) else c)"

fun json_lower :: "json \<Rightarrow> error + json" where
  "json_lower (JStr s) = Inr (JStr (map lower_char s))"
| "json_lower v = Inl AttributeError"

definition default_weather :: json where
  "default_weather =
     JObj [(''condition'', JStr ''clear''), (''description'', JStr ''clear sky''),
           (''temperature'', JNum 25), (''humidity'', JNum 50), (''precipitation'', JNum 0),
           (''visibility'', JNum 10), (''wind_speed'', JNum 5)]"

text \<open>\<open>WeatherService._fetch_from_api\<close>.\<close>

definition weather_parse :: "json \<Rightarrow> error + json" where
  "weather_parse data =
     and_then (json_get data ''weather'' (JArr [JObj []])) (\<lambda>ws.
     and_then (json_first ws) (\<lambda>weather.
     and_then (json_get data ''main'' (JObj [])) (\<lambda>main.
     and_then (json_get weather ''main'' (JStr ''Clear'')) (\<lambda>cond.
     and_then (json_lower cond) (\<lambda>condition.
     and_then (json_get data ''rain'' (JObj [])) (\<lambda>rain_obj.
     and_then (json_get rain_obj ''1h'' (JNum 0)) (\<lambda>rain.
     and_then (json_get weather ''description'' (JStr [])) (\<lambda>descr.
     and_then (json_get main ''temp'' (JNum 25)) (\<lambda>temp.
     and_then (json_get main ''humidity'' (JNum 50)) (\<lambda>humidity.
     and_then (json_get data ''visibility'' (JNum 10000)) (\<lambda>vis.
     and_then (json_num vis) (\<lambda>visibility_m.
     and_then (json_get data ''wind'' (JObj [])) (\<lambda>wind.
     and_then (json_get wind ''speed'' (JNum 0)) (\<lambda>wind_speed.
       Inr (JObj [(''condition'', condition), (''description'', descr),
                  (''temperature'', temp), (''humidity'', humidity),
                  (''precipitation'', rain), (''visibility'', JNum (visibility_m / 1000)),
                  (''wind_speed'', wind_speed)])))))))))))))))"

definition weather_fetch_from_api ::
  "(error + http_response) \<Rightarrow> pyobject \<Rightarrow> error + json" where
  "weather_fetch_from_api provider location =
     and_then (getattr location ''lat'') (\<lambda>lat.
     and_then (getattr location ''lng'') (\<lambda>lng.
     and_then provider (\<lambda>response.
       if status_code response \<noteq> 200 then Inr default_weather
       else and_then (json_body response) weather_parse)))"

definition weather_cache_key ::
  "(nat \<Rightarrow> real \<Rightarrow> string) \<Rightarrow> pyobject \<Rightarrow> error + string" where
  "weather_cache_key fmt location =
     and_then (attr_fixed fmt 2 location ''lat'') (\<lambda>a.
     and_then (attr_fixed fmt 2 location ''lng'') (\<lambda>b.
       Inr (''weather:'' @ a @ '','' @ b)))"

text \<open>\<open>get_current_weather\<close>, with the same shape as the traffic adapter.\<close>

definition get_current_weather ::
  "(nat \<Rightarrow> real \<Rightarrow> string) \<Rightarrow> string option \<Rightarrow> redis \<Rightarrow> (error + http_response) \<Rightarrow>
   pyobject \<Rightarrow> (error + json) \<times> redis" where
  "get_current_weather fmt api_key r provider location =
     (case weather_cache_key fmt location of
        Inl e \<Rightarrow> (Inl e, r)
      | Inr cache_key \<Rightarrow>
          (let miss =
                 (case (if key_truthy api_key
                        then weather_fetch_from_api provider location
                        else Inr default_weather) of
                    Inl e \<Rightarrow> (Inr default_weather, r)
                  | Inr result \<Rightarrow> (Inr result, snd (cache_set r cache_key result 300)))
           in case cache_get r cache_key of
                None \<Rightarrow> miss
              | Some cached \<Rightarrow> if json_truthy cached then (Inr cached, r) else miss))"

text \<open>A summary is complete when it is a dictionary holding every key of the adapter's
  default summary.\<close>

definition has_keys :: "string list \<Rightarrow> json \<Rightarrow> bool" where
  "has_keys ks v =
     (case v of JObj kvs \<Rightarrow> list_all (\<lambda>k. map_of kvs k \<noteq> None) ks | _ \<Rightarrow> False)"

definition complete_traffic :: "json \<Rightarrow> bool" where
  "complete_traffic v =
     has_keys [''speed_ratio'', ''delay_minutes'', ''level'', ''incidents'', ''congestion''] v"

definition complete_weather :: "json \<Rightarrow> bool" where
  "complete_weather v =
     has_keys [''condition'', ''description'', ''temperature'', ''humidity'',
               ''precipitation'', ''visibility'', ''wind_speed''] v"

text \<open>The two arguments as the callers build them: an object with numeric \<open>lat\<close> and
  \<open>lng\<close> attributes, and a \<open>Location\<close> of app/models/schemas.py, whose fields are
  \<open>latitude\<close> and \<open>longitude\<close>.\<close>

definition latlng_object :: "real \<Rightarrow> real \<Rightarrow> pyobject" where
  "latlng_object a b = [(''lat'', JNum a), (''lng'', JNum b)]"

definition location_object :: "Location \<Rightarrow> pyobject" where
  "location_object l = [(''latitude'', JNum (latitude l)), (''longitude'', JNum (longitude l))]"

section \<open>Inputs named by the properties\<close>

text \<open>A traffic dictionary whose \<open>speed_ratio\<close>, when present, is a number: what the
  traffic adapter's summaries hold.\<close>

definition numeric_speed_ratio :: "pydict option \<Rightarrow> bool" where
  "numeric_speed_ratio traffic_data =
     (case traffic_data of
        None \<Rightarrow> True
      | Some t \<Rightarrow> (case dict_get t ''speed_ratio'' (PNum 1) of PNone \<Rightarrow> False | PNum x \<Rightarrow> True))"



text \<open>The cached value an adapter returns at once: the entry under the key, when the
  cache answers and the entry is truthy.\<close>

definition cache_hit :: "redis \<Rightarrow> string \<Rightarrow> json option" where
  "cache_hit r key =
     (case cache_get r key of
        None \<Rightarrow> None
      | Some cached \<Rightarrow> if json_truthy cached then Some cached else None)"

text \<open>The ways a provider call fails: the GET raises, the status is not 200, the body
  does not parse, or reading the payload raises.\<close>

definition provider_failed :: "(json \<Rightarrow> error + json) \<Rightarrow> (error + http_response) \<Rightarrow> bool" where
  "provider_failed parse provider =
     (case provider of
        Inl e \<Rightarrow> True
      | Inr response \<Rightarrow>
          (if status_code response = 200
           then (case json_body response of
                   Inl e \<Rightarrow> True
                 | Inr data \<Rightarrow> (case parse data of Inl e \<Rightarrow> True | Inr v \<Rightarrow> False))
           else True))"

section \<open>Helper lemmas\<close>

lemma radians_diff_neg: "radians (x - y) = - radians (y - x)"
  by (simp add: radians_def field_simps)

lemma haversine_a_swap:
  "haversine_a (radians lat1) (radians lat2) (radians (lat2 - lat1)) (radians (lng2 - lng1))
   = haversine_a (radians lat2) (radians lat1) (radians (lat1 - lat2)) (radians (lng1 - lng2))"
proof -
  have 1: "radians (lat1 - lat2) = - radians (lat2 - lat1)" by (rule radians_diff_neg)
  have 2: "radians (lng1 - lng2) = - radians (lng2 - lng1)" by (rule radians_diff_neg)
  show ?thesis unfolding haversine_a_def 1 2 by (simp add: mult.commute)
qed

lemma simple_speed_ok:
  assumes "numeric_speed_ratio traffic_data"
  shows "\<exists>v. simple_speed_divisor traffic_data = Inr v \<and> 5 \<le> v"
  using assms
  by (auto simp: numeric_speed_ratio_def simple_speed_divisor_def Let_def
      split: option.splits pyval.splits)
















text \<open>
  Called with objects that carry numeric \<open>lat\<close> and \<open>lng\<close> attributes, the two
  adapters return a value for every state of the cache and every behaviour of the
  provider: a truthy cached entry as stored, and otherwise a complete summary, the
  default one when the provider call fails.
\<close>

lemma and_then_Inr: "and_then r f = Inr v \<Longrightarrow> \<exists>x. r = Inr x \<and> f x = Inr v"
  by (cases r) (simp_all add: and_then_def)

lemma and_then_simps [simp]: "and_then (Inr x) f = f x" "and_then (Inl e) f = Inl e"
  by (simp_all add: and_then_def)

lemma complete_default_traffic: "complete_traffic default_traffic"
  by (simp add: complete_traffic_def has_keys_def default_traffic_def)

lemma complete_traffic_summary: "complete_traffic (traffic_summary s d n)"
  by (simp add: complete_traffic_def has_keys_def traffic_summary_def)

lemma traffic_parse_complete: "traffic_parse data = Inr v \<Longrightarrow> complete_traffic v"
  unfolding traffic_parse_def
  by (auto dest!: and_then_Inr simp: complete_traffic_summary split: prod.splits)

lemma complete_default_weather: "complete_weather default_weather"
  by (simp add: complete_weather_def has_keys_def default_weather_def)

lemma weather_parse_complete: "weather_parse data = Inr v \<Longrightarrow> complete_weather v"
  unfolding weather_parse_def
  by (auto dest!: and_then_Inr simp: complete_weather_def has_keys_def)

lemma getattr_latlng [simp]:
  "getattr (latlng_object a b) ''lat'' = Inr (JNum a)"
  "getattr (latlng_object a b) ''lng'' = Inr (JNum b)"
  by (simp_all add: getattr_def latlng_object_def)

lemma traffic_key_latlng:
  "traffic_cache_key fmt (latlng_object a b) (latlng_object c d)
   = Inr (''traffic:'' @ fmt 4 a @ '','' @ fmt 4 b @ '':'' @ fmt 4 c @ '','' @ fmt 4 d)"
  by (simp add: traffic_cache_key_def attr_fixed_def)

lemma weather_key_latlng:
  "weather_cache_key fmt (latlng_object a b) = Inr (''weather:'' @ fmt 2 a @ '','' @ fmt 2 b)"
  by (simp add: weather_cache_key_def attr_fixed_def)

lemma traffic_fetch_outcome:
  "(\<exists>e. traffic_fetch_from_api provider (latlng_object a b) (latlng_object c d) = Inl e)
   \<or> (\<exists>v. traffic_fetch_from_api provider (latlng_object a b) (latlng_object c d) = Inr v
          \<and> complete_traffic v \<and> (provider_failed traffic_parse provider \<longrightarrow> v = default_traffic))"
proof (cases provider)
  case (Inl x)
  then show ?thesis by (simp add: traffic_fetch_from_api_def)
next
  case (Inr response)
  show ?thesis
  proof (cases "status_code response = 200")
    case False
    then show ?thesis using Inr
      by (simp add: traffic_fetch_from_api_def complete_default_traffic)
  next
    case True
    show ?thesis
    proof (cases "json_body response")
      case (Inl x)
      then show ?thesis using Inr True by (simp add: traffic_fetch_from_api_def)
    next
      case body: (Inr data)
      show ?thesis
      proof (cases "traffic_parse data")
        case (Inl x)
        then show ?thesis using Inr True body by (simp add: traffic_fetch_from_api_def)
      next
        case parsed: (Inr v)
        then show ?thesis using Inr True body traffic_parse_complete [OF parsed]
          by (simp add: traffic_fetch_from_api_def provider_failed_def)
      qed
    qed
  qed
qed

lemma estimate_latlng:
  "\<exists>v. estimate_from_patterns hour day (latlng_object a b) (latlng_object c d) = Inr v
        \<and> complete_traffic v"
  by (simp add: estimate_from_patterns_def crosses_cbd_def in_cbd_def complete_traffic_def
      has_keys_def Let_def)

lemma traffic_adapter:
  "\<exists>v r'. get_traffic_conditions fmt api_key r provider hour day
              (latlng_object a b) (latlng_object c d) = (Inr v, r') \<and>
     (case cache_hit r (''traffic:'' @ fmt 4 a @ '','' @ fmt 4 b @ '':'' @ fmt 4 c @ '','' @ fmt 4 d) of
        Some cached \<Rightarrow> v = cached \<and> r' = r
      | None \<Rightarrow> complete_traffic v \<and>
          (key_truthy api_key \<and> provider_failed traffic_parse provider
             \<longrightarrow> v = default_traffic))"
proof -
  define key where "key = ''traffic:'' @ fmt 4 a @ '','' @ fmt 4 b @ '':'' @ fmt 4 c @ '','' @ fmt 4 d"
  define fetch where "fetch = (if key_truthy api_key
       then traffic_fetch_from_api provider (latlng_object a b) (latlng_object c d)
       else estimate_from_patterns hour day (latlng_object a b) (latlng_object c d))"
  define miss :: "(error + json) \<times> redis" where "miss = (case fetch of
       Inl e \<Rightarrow> (Inr default_traffic, r)
     | Inr result \<Rightarrow> (Inr result, snd (cache_set r key result 30)))"
  have k: "traffic_cache_key fmt (latlng_object a b) (latlng_object c d) = Inr key"
    unfolding key_def by (rule traffic_key_latlng)
  have f: "(\<exists>e. fetch = Inl e) \<or>
      (\<exists>v. fetch = Inr v \<and> complete_traffic v \<and>
         (key_truthy api_key \<and> provider_failed traffic_parse provider \<longrightarrow> v = default_traffic))"
  proof (cases "key_truthy api_key")
    case True
    then show ?thesis using traffic_fetch_outcome [of provider a b c d]
      by (auto simp: fetch_def)
  next
    case False
    then show ?thesis using estimate_latlng [of hour day a b c d] by (auto simp: fetch_def)
  qed
  have m: "\<exists>v r'. miss = (Inr v, r') \<and> complete_traffic v \<and>
      (key_truthy api_key \<and> provider_failed traffic_parse provider
         \<longrightarrow> v = default_traffic)"
    using f by (auto simp: miss_def complete_default_traffic)
  have main: "\<exists>v r'. get_traffic_conditions fmt api_key r provider hour day
              (latlng_object a b) (latlng_object c d) = (Inr v, r') \<and>
     (case cache_hit r key of
        Some cached \<Rightarrow> v = cached \<and> r' = r
      | None \<Rightarrow> complete_traffic v \<and>
          (key_truthy api_key \<and> provider_failed traffic_parse provider
             \<longrightarrow> v = default_traffic))"
  proof (cases "cache_hit r key")
    case None
    then have "get_traffic_conditions fmt api_key r provider hour day
              (latlng_object a b) (latlng_object c d) = miss"
      by (auto simp: get_traffic_conditions_def k cache_hit_def miss_def fetch_def Let_def
          split: option.splits if_splits)
    then show ?thesis using m None by auto
  next
    case (Some cached)
    then have "get_traffic_conditions fmt api_key r provider hour day
              (latlng_object a b) (latlng_object c d) = (Inr cached, r)"
      by (auto simp: get_traffic_conditions_def k cache_hit_def Let_def
          split: option.splits if_splits)
    then show ?thesis using Some by simp
  qed
  show ?thesis using main unfolding key_def .
qed

lemma weather_fetch_outcome:
  "(\<exists>e. weather_fetch_from_api provider (latlng_object a b) = Inl e)
   \<or> (\<exists>v. weather_fetch_from_api provider (latlng_object a b) = Inr v
          \<and> complete_weather v \<and> (provider_failed weather_parse provider \<longrightarrow> v = default_weather))"
proof (cases provider)
  case (Inl x)
  then show ?thesis by (simp add: weather_fetch_from_api_def)
next
  case (Inr response)
  show ?thesis
  proof (cases "status_code response = 200")
    case False
    then show ?thesis using Inr
      by (simp add: weather_fetch_from_api_def complete_default_weather)
  next
    case True
    show ?thesis
    proof (cases "json_body response")
      case (Inl x)
      then show ?thesis using Inr True by (simp add: weather_fetch_from_api_def)
    next
      case body: (Inr data)
      show ?thesis
      proof (cases "weather_parse data")
        case (Inl x)
        then show ?thesis using Inr True body by (simp add: weather_fetch_from_api_def)
      next
        case parsed: (Inr v)
        then show ?thesis using Inr True body weather_parse_complete [OF parsed]
          by (simp add: weather_fetch_from_api_def provider_failed_def)
      qed
    qed
  qed
qed

lemma weather_adapter:
  "\<exists>v r'. get_current_weather fmt api_key r provider (latlng_object a b) = (Inr v, r') \<and>
     (case cache_hit r (''weather:'' @ fmt 2 a @ '','' @ fmt 2 b) of
        Some cached \<Rightarrow> v = cached \<and> r' = r
      | None \<Rightarrow> complete_weather v \<and>
          (key_truthy api_key \<and> provider_failed weather_parse provider
             \<longrightarrow> v = default_weather))"
proof -
  define key where "key = ''weather:'' @ fmt 2 a @ '','' @ fmt 2 b"
  define fetch where "fetch = (if key_truthy api_key
       then weather_fetch_from_api provider (latlng_object a b)
       else Inr default_weather)"
  define miss :: "(error + json) \<times> redis" where "miss = (case fetch of
       Inl e \<Rightarrow> (Inr default_weather, r)
     | Inr result \<Rightarrow> (Inr result, snd (cache_set r key result 300)))"
  have k: "weather_cache_key fmt (latlng_object a b) = Inr key"
    unfolding key_def by (rule weather_key_latlng)
  have f: "(\<exists>e. fetch = Inl e) \<or>
      (\<exists>v. fetch = Inr v \<and> complete_weather v \<and>
         (key_truthy api_key \<and> provider_failed weather_parse provider \<longrightarrow> v = default_weather))"
  proof (cases "key_truthy api_key")
    case True
    then show ?thesis using weather_fetch_outcome [of provider a b]
      by (auto simp: fetch_def)
  next
    case False
    then show ?thesis by (simp add: fetch_def complete_default_weather)
  qed
  have m: "\<exists>v r'. miss = (Inr v, r') \<and> complete_weather v \<and>
      (key_truthy api_key \<and> provider_failed weather_parse provider
         \<longrightarrow> v = default_weather)"
    using f by (auto simp: miss_def complete_default_weather)
  have main: "\<exists>v r'. get_current_weather fmt api_key r provider (latlng_object a b)
                = (Inr v, r') \<and>
     (case cache_hit r key of
        Some cached \<Rightarrow> v = cached \<and> r' = r
      | None \<Rightarrow> complete_weather v \<and>
          (key_truthy api_key \<and> provider_failed weather_parse provider
             \<longrightarrow> v = default_weather))"
  proof (cases "cache_hit r key")
    case None
    then have "get_current_weather fmt api_key r provider (latlng_object a b) = miss"
      by (auto simp: get_current_weather_def k cache_hit_def miss_def fetch_def Let_def
          split: option.splits if_splits)
    then show ?thesis using m None by auto
  next
    case (Some cached)
    then have "get_current_weather fmt api_key r provider (latlng_object a b)
                 = (Inr cached, r)"
      by (auto simp: get_current_weather_def k cache_hit_def Let_def
          split: option.splits if_splits)
    then show ?thesis using Some by simp
  qed
  show ?thesis using main unfolding key_def .
qed

text \<open>
  What the two engine paths do guarantee: the ready path returns an estimate of at least
  60 seconds inside its band; the fallback returns an estimate of at least 60 seconds
  that is not below its lower bound.
\<close>

lemma calculate_uncertainty_range:
  "calculate_uncertainty features = Inr u \<Longrightarrow> 1 / 10 \<le> u \<and> u \<le> 3 / 10"
  by (auto simp: calculate_uncertainty_def Let_def split: sum.splits if_splits)

lemma ready_path_band:
  assumes "ready_path m features = Inr (eta, lo, hi)"
  shows "60 \<le> eta \<and> lo \<le> eta \<and> eta \<le> hi"
proof -
  from assms obtain prediction u where
    p: "eta = max 60 prediction" "lo = eta * (1 - u)" "hi = eta * (1 + u)"
    and u: "calculate_uncertainty features = Inr u"
    by (auto simp: ready_path_def Let_def split: sum.splits)
  have r: "1 / 10 \<le> u" "u \<le> 3 / 10" using calculate_uncertainty_range [OF u] by auto
  have e: "60 \<le> eta" using p(1) by simp
  have "0 \<le> eta * u" using e r by (intro mult_nonneg_nonneg) auto
  then show ?thesis using e p(2,3) by (simp add: algebra_simps)
qed

lemma fallback_prediction_floor:
  assumes "fallback_prediction features = Inr (eta, lo, hi)"
  shows "60 \<le> eta \<and> lo \<le> eta"
  using assms
  by (auto simp: fallback_prediction_def Let_def split: sum.splits)

section \<open>Prediction engine: band and floor\<close>

text \<open>
  C1. Every result of the engine should satisfy
  \<open>confidence_low \<le> eta_seconds \<le> confidence_high\<close>. The fallback's return statement
  floors the estimate and the lower bound at 60 and leaves the upper bound as computed:
  with no model loaded and a road distance of 0.1 km the raw estimate is 18.72 s, and the
  engine returns the estimate 60 with the band from 60 to 23.4, the upper bound below
  the estimate.
\<close>

theorem fallback_band_inverted:
  "predict \<lparr>model = None, model_version = ''v1.0''\<rparr>
     [(''estimated_road_distance_km'', PNum (1 / 10))] = Inr (60, 60, 117 / 5)"
  by (simp add: predict_def fallback_prediction_def dict_get_def time_multiplier_def
      dict_get_none_def Let_def)

text \<open>
  C2. Every point estimate should be at least 60 seconds. The engine's two paths floor
  theirs; the route's own calculation returns the quotient as it is: for a trip whose
  pickup and dropoff coincide, with no model service, the response carries an estimate
  of 0 seconds, labelled \<open>SIMPLE_CALCULATION\<close>.
\<close>

theorem simple_eta_below_floor:
  "predict_eta_step None []
     \<lparr>latitude = - 12921 / 10000, longitude = 368219 / 10000\<rparr>
     \<lparr>latitude = - 12921 / 10000, longitude = 368219 / 10000\<rparr> None
   = Inr ((0, 0, 0), SIMPLE_CALCULATION, None)"
  by (simp add: predict_eta_step_def simple_eta_calculation_def simple_eta_from_term_def
      simple_haversine_term_def simple_distance_from_term_def simple_speed_divisor_def
      radians_def haversine_a_def central_angle_def py_sqrt_def atan2_def Let_def)




section \<open>Cohort assignment\<close>

text \<open>
  C4. Cohort assignment is a function of the pair and of the experiment's registry entry:
  \<open>None\<close> for an experiment that is absent or not active; otherwise the hash of
  \<open>user_id:experiment_id\<close> modulo 100 lies in \<open>[0, 100)\<close>, the answer is
  \<open>treatment\<close> exactly when that value is below \<open>traffic_percentage\<close> and
  \<open>control\<close> exactly when it is not; and any registry with the same entry for the
  experiment gives the same answer.
\<close>

theorem assignment_deterministic:
  "(reg e = None \<longrightarrow> get_experiment_assignment h reg u e = None) \<and>
   (\<forall>c. reg e = Some c \<and> status c \<noteq> ''active'' \<longrightarrow>
        get_experiment_assignment h reg u e = None) \<and>
   (\<forall>c. reg e = Some c \<and> status c = ''active'' \<longrightarrow>
        0 \<le> h (u @ '':'' @ e) mod 100 \<and> h (u @ '':'' @ e) mod 100 < 100 \<and>
        (get_experiment_assignment h reg u e = Some ''treatment''
           \<longleftrightarrow> h (u @ '':'' @ e) mod 100 < traffic_percentage c) \<and>
        (get_experiment_assignment h reg u e = Some ''control''
           \<longleftrightarrow> \<not> h (u @ '':'' @ e) mod 100 < traffic_percentage c)) \<and>
   (\<forall>reg'. reg' e = reg e \<longrightarrow>
        get_experiment_assignment h reg' u e = get_experiment_assignment h reg u e)"
  by (auto simp: get_experiment_assignment_def Let_def split: option.splits)

theorem assignment_deterministic_witness:
  "get_experiment_assignment (\<lambda>s. int (length s))
     [''e1'' \<mapsto> \<lparr>experiment_id = Some ''e1'', name = ''eta'', description = None,
                 traffic_percentage = 50, start_time = 0, end_time = None,
                 status = ''active''\<rparr>] ''u1'' ''e1'' = Some ''treatment''
   \<and> get_experiment_assignment (\<lambda>s. int (length s))
     [''e1'' \<mapsto> \<lparr>experiment_id = Some ''e1'', name = ''eta'', description = None,
                 traffic_percentage = 50, start_time = 0, end_time = Some 9,
                 status = ''stopped''\<rparr>] ''u1'' ''e1'' = None
   \<and> get_experiment_assignment (\<lambda>s. int (length s)) Map.empty ''u1'' ''e1'' = None"
proof -
  let ?h = "\<lambda>s::string. int (length s)"
  let ?a = "\<lparr>experiment_id = Some ''e1'', name = ''eta'', description = None,
                 traffic_percentage = 50, start_time = 0, end_time = None,
                 status = ''active''\<rparr>"
  let ?s = "\<lparr>experiment_id = Some ''e1'', name = ''eta'', description = None,
                 traffic_percentage = 50, start_time = 0, end_time = Some 9,
                 status = ''stopped''\<rparr>"
  have active: "[''e1'' \<mapsto> ?a] ''e1'' = Some ?a \<and> status ?a = ''active''" by simp
  have below: "?h (''u1'' @ '':'' @ ''e1'') mod 100 < traffic_percentage ?a" by simp
  have 1: "get_experiment_assignment ?h [''e1'' \<mapsto> ?a] ''u1'' ''e1'' = Some ''treatment''"
    using assignment_deterministic [of "[''e1'' \<mapsto> ?a]" "''e1''" ?h "''u1''", THEN conjunct2,
        THEN conjunct2, THEN conjunct1, rule_format, OF active] below by blast
  have stopped: "[''e1'' \<mapsto> ?s] ''e1'' = Some ?s \<and> status ?s \<noteq> ''active''" by simp
  have 2: "get_experiment_assignment ?h [''e1'' \<mapsto> ?s] ''u1'' ''e1'' = None"
    using assignment_deterministic [of "[''e1'' \<mapsto> ?s]" "''e1''" ?h "''u1''", THEN conjunct2,
        THEN conjunct1, rule_format, OF stopped] .
  have absent: "(Map.empty :: registry) ''e1'' = None" by simp
  have 3: "get_experiment_assignment ?h Map.empty ''u1'' ''e1'' = None"
    using assignment_deterministic [of Map.empty "''e1''" ?h "''u1''", THEN conjunct1, rule_format,
        OF absent] .
  show ?thesis using 1 2 3 by blast
qed

section \<open>Experiment results\<close>




section \<open>Recording experiment results\<close>




section \<open>Training trigger\<close>

text \<open>
  C6. A trigger that finds the training flag set answers 409 and changes nothing: the
  training state (flag, last training time, last result) and the queue of background
  tasks are returned as they were, so no second run is started.
\<close>

theorem trigger_training_conflict:
  "is_training st \<Longrightarrow>
   trigger_training st tasks now force retrain_interval
   = (Inl (HTTPException 409 ''Training already in progress''), st, tasks)"
  by (simp add: trigger_training_def)

theorem trigger_training_conflict_witness:
  "is_training \<lparr>is_training = True, last_trained = Some 100, last_result = None\<rparr>
   \<and> trigger_training \<lparr>is_training = True, last_trained = Some 100, last_result = None\<rparr>
       [RunTraining] 200 True (Some 24)
     = (Inl (HTTPException 409 ''Training already in progress''),
        \<lparr>is_training = True, last_trained = Some 100, last_result = None\<rparr>, [RunTraining])"
proof -
  have h: "is_training \<lparr>is_training = True, last_trained = Some 100, last_result = None\<rparr>"
    by simp
  show ?thesis
    using h trigger_training_conflict [OF h, of "[RunTraining]" 200 True "Some 24"] by simp
qed

section \<open>Haversine distance\<close>

text \<open>
  C8. The haversine distance of the feature extractor is symmetric in its two points, and
  the distance from a point to itself is 0.
\<close>

theorem haversine_symmetric_zero:
  "haversine_distance lat1 lng1 lat2 lng2 = haversine_distance lat2 lng2 lat1 lng1
   \<and> haversine_distance lat1 lng1 lat1 lng1 = Inr 0"
proof
  show "haversine_distance lat1 lng1 lat2 lng2 = haversine_distance lat2 lng2 lat1 lng1"
    using haversine_a_swap [of lat1 lat2 lng2 lng1]
    by (simp add: haversine_distance_def Let_def)
  show "haversine_distance lat1 lng1 lat1 lng1 = Inr 0"
    by (simp add: haversine_distance_def radians_def haversine_a_def central_angle_def
        py_sqrt_def atan2_def Let_def)
qed

section \<open>Route-level calculation\<close>


section \<open>Condition adapters\<close>

text \<open>
  C7. The two adapters should return a summary for every input. Both build the cache key
  from the attributes \<open>lat\<close> and \<open>lng\<close> of their arguments, before the \<open>try\<close> block;
  the declared argument type \<open>LatLng\<close> is the schema's \<open>Location\<close>, whose fields are
  \<open>latitude\<close> and \<open>longitude\<close>. For every such location, whatever the cache holds and
  whatever the provider does, the attribute lookup raises \<open>AttributeError\<close>, the error
  reaches the caller, and the cache is not touched.
\<close>

theorem adapters_raise_on_schema_location:
  "get_traffic_conditions fmt api_key r provider hour day
       (location_object origin) (location_object destination) = (Inl AttributeError, r)
   \<and> get_current_weather fmt api_key r provider (location_object location)
       = (Inl AttributeError, r)"
  by (simp add: get_traffic_conditions_def traffic_cache_key_def get_current_weather_def
      weather_cache_key_def attr_fixed_def getattr_def location_object_def and_then_def)

end
